theory Spec2Isabelle
  imports Complex_Main "HOL-Library.Multiset"
begin

section \<open>The K-Means clusterer of Dashboard.tsx\<close>

text \<open>
  The component \<^verbatim>\<open>KMeansClusterer\<close> of \<^verbatim>\<open>src/components/Dashboard.tsx\<close> keeps seven
  React state variables and changes them in five event handlers. The state variables are
  the fields of one record, and each handler is a function from the state at the render
  in which the event fires to the state of the next render (all \<^verbatim>\<open>set...\<close> calls of one
  handler are applied together).

  JavaScript numbers are modelled as follows. A coordinate or a distance is the \<open>real\<close>
  that a finite double denotes, and doubles are compared as these reals are. What the
  engine's arithmetic makes of two doubles is not fixed in the source: addition,
  subtraction, division, \<^verbatim>\<open>Math.pow\<close> and \<^verbatim>\<open>Math.sqrt\<close> are parameters of the model, the
  fields of a record \<open>arith\<close>, and every theorem below holds for every such record, whatever
  rounding it does. NaN and the infinities are not numbers of the model; no handler
  produces them from the integer coordinates between 0 and 10 that \<^verbatim>\<open>handleMouseDown\<close>
  stores. Counters and array indices that the code computes with are \<open>int\<close>, so that \<open>-1\<close> of
  \<^verbatim>\<open>indexOf\<close>, a negative \<^verbatim>\<open>clusters\<close> and \<^verbatim>\<open>Math.max(0, prev - 1)\<close> keep their meaning
  (a fractional \<^verbatim>\<open>clusters\<close> is not modelled).

  Both record types of the source have fields \<^verbatim>\<open>x\<close> and \<^verbatim>\<open>y\<close>; the fields of a point are
  written \<open>px\<close>, \<open>py\<close>, \<open>pcluster\<close>, \<open>pname\<close> and those of a centroid \<open>cx\<close>, \<open>cy\<close>.
  The optional field \<^verbatim>\<open>cluster?: number\<close> is an \<open>int option\<close>.
\<close>

subsection \<open>Data\<close>

record point =
  px :: real
  py :: real
  pcluster :: "int option"
  pname :: string

record centroid =
  cx :: real
  cy :: real

text \<open>An entry of \<^verbatim>\<open>iterationHistory\<close>, the object \<^verbatim>\<open>{ points, centroids }\<close>.\<close>

type_synonym snapshot = "point list \<times> centroid list"

record state =
  points :: "point list"
  clusters :: int
  centroids :: "centroid list"
  clusterColors :: "string list"
  iterationHistory :: "snapshot list"
  currentIteration :: int
  isConverged :: bool

text \<open>The values given to \<^verbatim>\<open>useState\<close>.\<close>

definition initial_state :: state where
  "initial_state =
     \<lparr>points = [], clusters = 2, centroids = [], clusterColors = [],
      iterationHistory = [], currentIteration = 0, isConverged = False\<rparr>"

subsection \<open>Arithmetic\<close>

text \<open>
  The operations on numbers that the handlers use: \<^verbatim>\<open>a + b\<close>, \<^verbatim>\<open>a - b\<close>, \<^verbatim>\<open>a / b\<close>,
  \<^verbatim>\<open>Math.pow(a, n)\<close> (the source only has the exponent 2) and \<^verbatim>\<open>Math.sqrt(a)\<close>.
  \<^verbatim>\<open>Math.abs\<close>, \<^verbatim>\<open>Math.min\<close>, \<^verbatim>\<open><\<close> and \<^verbatim>\<open>===\<close> round nothing and are those of the reals.
\<close>

record arith =
  num_add :: "real \<Rightarrow> real \<Rightarrow> real"
  num_sub :: "real \<Rightarrow> real \<Rightarrow> real"
  num_div :: "real \<Rightarrow> real \<Rightarrow> real"
  math_pow :: "real \<Rightarrow> nat \<Rightarrow> real"
  math_sqrt :: "real \<Rightarrow> real"

text \<open>
  Arithmetic that rounds nothing. Double arithmetic agrees with it wherever the exact
  result is a double, as it is at every operation of the example sessions below.
\<close>

definition ideal :: arith where
  "ideal = \<lparr>num_add = (+), num_sub = (-), num_div = (/), math_pow = (^), math_sqrt = sqrt\<rparr>"

subsection \<open>Utility functions\<close>

definition calculateDistance :: "arith \<Rightarrow> point \<Rightarrow> centroid \<Rightarrow> real" where
  "calculateDistance ar p1 p2 =
     math_sqrt ar
       (num_add ar (math_pow ar (num_sub ar (px p1) (cx p2)) 2)
                   (math_pow ar (num_sub ar (py p1) (cy p2)) 2))"

text \<open>
  \<^verbatim>\<open>generateRandomColors(k)\<close> is \<^verbatim>\<open>Array.from({ length: k }, ...)\<close>: an array of \<open>k\<close>
  strings, empty when \<open>k\<close> is not positive. The random string made for index \<open>i\<close> is
  given by the parameter \<open>rnd\<close>.
\<close>

definition generateRandomColors :: "(nat \<Rightarrow> string) \<Rightarrow> int \<Rightarrow> string list" where
  "generateRandomColors rnd k = map rnd [0..<nat k]"

text \<open>
  \<^verbatim>\<open>Math.min(...d)\<close>: the least argument, and \<^verbatim>\<open>Infinity\<close> when there is none, which is
  the value \<open>None\<close> here.
\<close>

fun math_min :: "real list \<Rightarrow> real option" where
  "math_min [] = None"
| "math_min (v # vs) = (case math_min vs of None \<Rightarrow> Some v | Some m \<Rightarrow> Some (min v m))"

text \<open>
  \<^verbatim>\<open>d.indexOf(v)\<close>: the first index holding \<open>v\<close>, and \<open>-1\<close> when there is none. The first
  argument is the index of the head of the list that is left to search.
\<close>

fun indexOfFrom :: "int \<Rightarrow> real list \<Rightarrow> real \<Rightarrow> int" where
  "indexOfFrom i [] v = - 1"
| "indexOfFrom i (w # ws) v = (if w = v then i else indexOfFrom (i + 1) ws v)"

definition indexOf :: "real list \<Rightarrow> real \<Rightarrow> int" where
  "indexOf d v = indexOfFrom 0 d v"

text \<open>\<^verbatim>\<open>d.indexOf(Math.min(...d))\<close>; no element of a list of reals is \<^verbatim>\<open>Infinity\<close>.\<close>

definition nearest :: "real list \<Rightarrow> int" where
  "nearest d = (case math_min d of None \<Rightarrow> - 1 | Some m \<Rightarrow> indexOf d m)"

text \<open>
  \<^verbatim>\<open>xs.slice(0, k)\<close>: the first \<open>k\<close> elements, and for a negative \<open>k\<close> all but the last
  \<open>-k\<close> elements.
\<close>

definition slice0 :: "'a list \<Rightarrow> int \<Rightarrow> 'a list" where
  "slice0 xs k = (if k < 0 then take (nat (int (length xs) + k)) xs else take (nat k) xs)"

text \<open>
  \<^verbatim>\<open>points.sort(() => 0.5 - Math.random())\<close> sorts the array in place with a comparator
  that answers at random, and returns it. Which order comes out is left to the engine; that
  it is an order of the array's own elements, none lost and none doubled, is taken for
  granted here. The order is given by the list \<open>perm\<close> of the old indices in their new
  order, and \<open>is_shuffle perm n\<close> says that \<open>perm\<close> is such a reordering of \<open>n\<close>
  elements. The functions below take \<open>perm\<close> as a parameter, and the theorems that depend
  on it assume \<open>is_shuffle\<close>.
\<close>

definition is_shuffle :: "nat list \<Rightarrow> nat \<Rightarrow> bool" where
  "is_shuffle perm n = (distinct perm \<and> length perm = n \<and> list_all (\<lambda>i. i < n) perm)"

definition shuffled :: "nat list \<Rightarrow> 'a list \<Rightarrow> 'a list" where
  "shuffled perm xs = map (\<lambda>i. xs ! i) perm"

text \<open>The decimal digits of a number, for the template string \<^verbatim>\<open>`p${prev.length + 1}`\<close>.\<close>

fun decimal :: "nat \<Rightarrow> string" where
  "decimal n =
     (if n < 10 then [''0123456789'' ! n]
      else decimal (n div 10) @ [''0123456789'' ! (n mod 10)])"

subsection \<open>Clustering methods\<close>

text \<open>
  \<^verbatim>\<open>initializeCentroids\<close>. The sort reorders the array held in \<^verbatim>\<open>points\<close> itself, so the
  next render shows the points in the new order; no point object is changed.
\<close>

definition initializeCentroids :: "nat list \<Rightarrow> (nat \<Rightarrow> string) \<Rightarrow> state \<Rightarrow> state" where
  "initializeCentroids perm rnd s =
     (let sorted = shuffled perm (points s);
          initialCentroids = map (\<lambda>p. \<lparr>cx = px p, cy = py p\<rparr>) (slice0 sorted (clusters s))
      in s\<lparr>points := sorted,
           centroids := initialCentroids,
           clusterColors := generateRandomColors rnd (clusters s),
           currentIteration := 0,
           isConverged := False,
           iterationHistory := []\<rparr>)"

text \<open>The parts of \<^verbatim>\<open>performKMeansIteration\<close>, named as its local constants are.\<close>

definition distances :: "arith \<Rightarrow> point list \<Rightarrow> centroid list \<Rightarrow> real list list" where
  "distances ar ps cs =
     map (\<lambda>point. map (\<lambda>centroid. calculateDistance ar point centroid) cs) ps"

definition labels :: "arith \<Rightarrow> point list \<Rightarrow> centroid list \<Rightarrow> int list" where
  "labels ar ps cs = map (\<lambda>d. nearest d) (distances ar ps cs)"

definition clusterPoints :: "arith \<Rightarrow> point list \<Rightarrow> centroid list \<Rightarrow> nat \<Rightarrow> point list" where
  "clusterPoints ar ps cs clusterIndex =
     map (\<lambda>i. ps ! i) (filter (\<lambda>i. labels ar ps cs ! i = int clusterIndex) [0..<length ps])"

text \<open>
  The sums run from 0 through the cluster's points in their order in \<^verbatim>\<open>points\<close>, as
  \<^verbatim>\<open>reduce\<close> does; the number of points is a small integer, so a double.
\<close>

definition newCentroids :: "arith \<Rightarrow> point list \<Rightarrow> centroid list \<Rightarrow> centroid list" where
  "newCentroids ar ps cs =
     map (\<lambda>clusterIndex.
            let cps = clusterPoints ar ps cs clusterIndex
            in if length cps = 0 then cs ! clusterIndex
               else \<lparr>cx = num_div ar (foldl (\<lambda>sum p. num_add ar sum (px p)) 0 cps)
                            (real (length cps)),
                     cy = num_div ar (foldl (\<lambda>sum p. num_add ar sum (py p)) 0 cps)
                            (real (length cps))\<rparr>)
         [0..<length cs]"

definition newPoints :: "arith \<Rightarrow> point list \<Rightarrow> centroid list \<Rightarrow> point list" where
  "newPoints ar ps cs =
     map (\<lambda>index. (ps ! index)\<lparr>pcluster := Some (labels ar ps cs ! index)\<rparr>) [0..<length ps]"

text \<open>
  The literal \<^verbatim>\<open>0.001\<close> is the double nearest to 1/1000, which is
  \<open>1152921504606847 / 2 ^ 60\<close>. It lies above 1/1000 by less than \<open>3 / 10 ^ 20\<close>, and no
  double lies between the two, so a double is below the one exactly when it is below the
  other.
\<close>

definition hasConverged :: "arith \<Rightarrow> point list \<Rightarrow> centroid list \<Rightarrow> bool" where
  "hasConverged ar ps cs =
     list_all (\<lambda>i. \<bar>num_sub ar (cx (newCentroids ar ps cs ! i)) (cx (cs ! i))\<bar>
                      < 1152921504606847 / 2 ^ 60 \<and>
                    \<bar>num_sub ar (cy (newCentroids ar ps cs ! i)) (cy (cs ! i))\<bar>
                      < 1152921504606847 / 2 ^ 60)
       [0..<length (newCentroids ar ps cs)]"

definition performKMeansIteration :: "arith \<Rightarrow> state \<Rightarrow> state" where
  "performKMeansIteration ar s =
     (if length (points s) = 0 \<or> length (centroids s) = 0 then s
      else s\<lparr>iterationHistory := iterationHistory s @ [(points s, centroids s)],
             centroids := newCentroids ar (points s) (centroids s),
             points := newPoints ar (points s) (centroids s),
             currentIteration := currentIteration s + 1,
             isConverged := (if hasConverged ar (points s) (centroids s) then True
                             else isConverged s)\<rparr>)"

definition revertToPreviousIteration :: "state \<Rightarrow> state" where
  "revertToPreviousIteration s =
     (if length (iterationHistory s) > 0
      then (let lastState = iterationHistory s ! (length (iterationHistory s) - 1)
            in s\<lparr>centroids := snd lastState,
                 points := fst lastState,
                 iterationHistory := butlast (iterationHistory s),
                 currentIteration := max 0 (currentIteration s - 1)\<rparr>)
      else s)"

text \<open>
  \<^verbatim>\<open>handleMouseDown\<close>, from the two rounded coordinates on: \<^verbatim>\<open>Math.round\<close> yields
  integers.
\<close>

definition handleMouseDown :: "int \<Rightarrow> int \<Rightarrow> state \<Rightarrow> state" where
  "handleMouseDown x y s =
     (if x \<ge> 0 \<and> x \<le> 10 \<and> y \<ge> 0 \<and> y \<le> 10
      then s\<lparr>points := points s @
                [\<lparr>px = of_int x, py = of_int y, pcluster = None,
                  pname = ''p'' @ decimal (length (points s) + 1)\<rparr>]\<rparr>
      else s)"

definition resetClustering :: "state \<Rightarrow> state" where
  "resetClustering s =
     s\<lparr>points := [], centroids := [], clusterColors := [], iterationHistory := [],
       currentIteration := 0, isConverged := False\<rparr>"

text \<open>The \<^verbatim>\<open>onChange\<close> of the number input: \<^verbatim>\<open>setClusters(Number(value))\<close>.\<close>

definition setClusters :: "int \<Rightarrow> state \<Rightarrow> state" where
  "setClusters k s = s\<lparr>clusters := k\<rparr>"

subsection \<open>The buttons\<close>

text \<open>
  Each handler is the \<^verbatim>\<open>onClick\<close> of a button, and three of the buttons have a
  \<^verbatim>\<open>disabled\<close> condition: a click on a disabled button calls no handler.
\<close>

definition clickInitialize :: "nat list \<Rightarrow> (nat \<Rightarrow> string) \<Rightarrow> state \<Rightarrow> state" where
  "clickInitialize perm rnd s =
     (if int (length (points s)) < clusters s then s else initializeCentroids perm rnd s)"

definition clickNextIteration :: "arith \<Rightarrow> state \<Rightarrow> state" where
  "clickNextIteration ar s =
     (if isConverged s \<or> length (centroids s) = 0 then s else performKMeansIteration ar s)"

definition clickPreviousIteration :: "state \<Rightarrow> state" where
  "clickPreviousIteration s =
     (if length (iterationHistory s) = 0 then s else revertToPreviousIteration s)"

subsection \<open>Sequences of events\<close>

datatype event =
    MouseDown int int
  | SetClusters int
  | Initialize "nat list" "nat \<Rightarrow> string"
  | NextIteration
  | PreviousIteration
  | Reset

fun handle :: "arith \<Rightarrow> event \<Rightarrow> state \<Rightarrow> state" where
  "handle ar (MouseDown x y) s = handleMouseDown x y s"
| "handle ar (SetClusters k) s = setClusters k s"
| "handle ar (Initialize perm rnd) s = initializeCentroids perm rnd s"
| "handle ar NextIteration s = performKMeansIteration ar s"
| "handle ar PreviousIteration s = revertToPreviousIteration s"
| "handle ar Reset s = resetClustering s"

text \<open>The state after a sequence of events, the first event of the list first.\<close>

definition run :: "arith \<Rightarrow> event list \<Rightarrow> state \<Rightarrow> state" where
  "run ar es s = foldl (\<lambda>t e. handle ar e t) s es"

subsection \<open>Properties of states\<close>

text \<open>
  The data model's condition on labels: a label that is set is an index into the centroid
  sequence. \<open>assignmentValid\<close> asks it of the current points and centroids and of every
  snapshot in the history.
\<close>

definition labelsInRange :: "point list \<Rightarrow> centroid list \<Rightarrow> bool" where
  "labelsInRange ps cs =
     list_all (\<lambda>p. case pcluster p of None \<Rightarrow> True
                    | Some l \<Rightarrow> 0 \<le> l \<and> l < int (length cs)) ps"

definition assignmentValid :: "state \<Rightarrow> bool" where
  "assignmentValid s =
     (labelsInRange (points s) (centroids s) \<and>
      list_all (\<lambda>h. labelsInRange (fst h) (snd h)) (iterationHistory s))"

subsection \<open>Example sessions\<close>

definition black :: "nat \<Rightarrow> string" where
  "black i = ''rgb(0, 0, 0)''"

text \<open>One click at (1, 1); the number input still shows 2.\<close>

definition one_point :: state where
  "one_point = handleMouseDown 1 1 initial_state"

text \<open>The same with the number input set to 1, then Initialize, then Next Iteration.\<close>

definition ready_one :: state where
  "ready_one = initializeCentroids [0] black (setClusters 1 one_point)"

definition stepped_one :: state where
  "stepped_one = performKMeansIteration ideal ready_one"

text \<open>After that the number input is set to 0.\<close>

definition stepped_zero :: state where
  "stepped_zero = setClusters 0 stepped_one"

text \<open>
  Clicks at (1, 1), (0, 1) and (2, 1), then Initialize with two clusters, the sort
  bringing the first point last: the centroids are (0, 1) and (2, 1), and (1, 1) is at
  distance 1 of both.
\<close>

definition three_points :: state where
  "three_points =
     handleMouseDown 2 1 (handleMouseDown 0 1 (handleMouseDown 1 1 initial_state))"

definition ready_three :: state where
  "ready_three = initializeCentroids [1, 2, 0] black three_points"

text \<open>Two clicks at (3, 4), then Initialize with two clusters.\<close>

definition twins :: state where
  "twins = handleMouseDown 3 4 (handleMouseDown 3 4 initial_state)"

definition ready_twins :: state where
  "ready_twins = initializeCentroids [1, 0] black twins"

declare decimal.simps [simp del]

section \<open>Auxiliary facts\<close>

subsection \<open>The first minimum\<close>

lemma math_min_Some:
  "d \<noteq> [] \<Longrightarrow> \<exists>m. math_min d = Some m \<and> m \<in> set d \<and> (\<forall>v\<in>set d. m \<le> v)"
proof (induction d)
  case Nil
  then show ?case by simp
next
  case (Cons v vs)
  show ?case
  proof (cases vs)
    case Nil
    then show ?thesis by simp
  next
    case (Cons w ws)
    with Cons.IH obtain m where m: "math_min vs = Some m" "m \<in> set vs" "\<forall>u\<in>set vs. m \<le> u"
      by auto
    then show ?thesis by (auto simp: min_def)
  qed
qed

lemma indexOfFrom_first:
  "v \<in> set d \<Longrightarrow>
     \<exists>j<length d. indexOfFrom i d v = i + int j \<and> d ! j = v \<and> (\<forall>j'<j. d ! j' \<noteq> v)"
proof (induction d arbitrary: i)
  case Nil
  then show ?case by simp
next
  case (Cons w ws)
  show ?case
  proof (cases "w = v")
    case True
    then show ?thesis by (intro exI [of _ 0]) simp
  next
    case False
    with Cons.prems have "v \<in> set ws" by simp
    from Cons.IH [OF this, of "i + 1"] obtain j where
      j: "j < length ws" "indexOfFrom (i + 1) ws v = i + 1 + int j" "ws ! j = v"
         "\<forall>j'<j. ws ! j' \<noteq> v"
      by blast
    have "\<forall>j'<Suc j. (w # ws) ! j' \<noteq> v"
      using False j(4) by (auto simp: nth_Cons split: nat.splits)
    with j False show ?thesis by (intro exI [of _ "Suc j"]) simp
  qed
qed

lemma first_minimum:
  assumes "d \<noteq> []"
  shows "\<exists>m j. math_min d = Some m \<and> indexOf d m = int j \<and> j < length d \<and>
           (\<forall>j'<length d. d ! j \<le> d ! j') \<and> (\<forall>j'<j. d ! j < d ! j')"
proof -
  from math_min_Some [OF assms] obtain m where
    m: "math_min d = Some m" "m \<in> set d" "\<forall>v\<in>set d. m \<le> v"
    by blast
  from indexOfFrom_first [OF m(2), of 0] obtain j where
    j: "j < length d" "indexOfFrom 0 d m = int j" "d ! j = m" "\<forall>j'<j. d ! j' \<noteq> m"
    by auto
  have le: "\<forall>j'<length d. d ! j \<le> d ! j'"
    using m(3) j(3) by simp
  have "\<forall>j'<j. d ! j < d ! j'"
  proof (intro allI impI)
    fix j' assume "j' < j"
    with j(1,4) le have "d ! j' \<noteq> m" "d ! j \<le> d ! j'" by auto
    with j(3) show "d ! j < d ! j'" by simp
  qed
  with j le m(1) show ?thesis
    by (intro exI [of _ m] exI [of _ j]) (simp add: indexOf_def)
qed

lemma nearest_first_minimum:
  assumes "d \<noteq> []"
  shows "\<exists>j<length d. nearest d = int j \<and> (\<forall>j'<length d. d ! j \<le> d ! j') \<and>
           (\<forall>j'<j. d ! j < d ! j')"
  using first_minimum [OF assms] by (auto simp: nearest_def)

subsection \<open>The parts of an iteration\<close>

lemma length_labels: "length (labels ar ps cs) = length ps"
  by (simp add: labels_def distances_def)

lemma nth_labels:
  "i < length ps \<Longrightarrow> labels ar ps cs ! i = nearest (map (calculateDistance ar (ps ! i)) cs)"
  by (simp add: labels_def distances_def)

lemma length_newPoints: "length (newPoints ar ps cs) = length ps"
  by (simp add: newPoints_def)

lemma nth_newPoints:
  "i < length ps \<Longrightarrow> newPoints ar ps cs ! i = (ps ! i)\<lparr>pcluster := Some (labels ar ps cs ! i)\<rparr>"
  by (simp add: newPoints_def)

lemma length_newCentroids: "length (newCentroids ar ps cs) = length cs"
  by (simp add: newCentroids_def)

lemma filter_relabel:
  "filter (\<lambda>p. pcluster p = Some c)
     (map (\<lambda>k. (ps ! k)\<lparr>pcluster := Some (L ! k)\<rparr>) ks) =
   map (\<lambda>p. p\<lparr>pcluster := Some c\<rparr>) (map (\<lambda>k. ps ! k) (filter (\<lambda>k. L ! k = c) ks))"
  by (induction ks) simp_all

text \<open>The double that the literal \<^verbatim>\<open>0.001\<close> denotes, against 1/1000.\<close>

lemma literal_above_one_thousandth:
  "(1 / 1000 :: real) < 1152921504606847 / 2 ^ 60 \<and>
   (1152921504606847 / 2 ^ 60 - 1 / 1000 :: real) < 3 / 10 ^ 20"
  by simp


lemma mean_ideal:
  "num_div ideal (foldl (num_add ideal) 0 xs) (real (length xs)) = sum_list xs / real (length xs)"
proof -
  have "foldl (+) a xs = a + sum_list xs" for a :: real
    by (induction xs arbitrary: a) (simp_all add: add.assoc)
  then show ?thesis by (simp add: ideal_def)
qed

lemma label_in_range:
  assumes "cs \<noteq> []" "i < length ps"
  shows "0 \<le> labels ar ps cs ! i \<and> labels ar ps cs ! i < int (length cs)"
proof -
  have "map (calculateDistance ar (ps ! i)) cs \<noteq> []"
    using assms(1) by simp
  from nearest_first_minimum [OF this] obtain j where
    "j < length cs" "nearest (map (calculateDistance ar (ps ! i)) cs) = int j"
    by auto
  with assms(2) show ?thesis by (simp add: nth_labels)
qed

lemma labelsInRange_newPoints:
  assumes "cs \<noteq> []"
  shows "labelsInRange (newPoints ar ps cs) (newCentroids ar ps cs)"
  unfolding labelsInRange_def list_all_length
  using label_in_range [OF assms]
  by (simp add: length_newPoints nth_newPoints length_newCentroids)

subsection \<open>The shuffle\<close>

lemma mset_shuffled:
  assumes "is_shuffle perm (length xs)"
  shows "mset (shuffled perm xs) = mset xs"
proof -
  have d: "distinct perm" and l: "length perm = length xs"
    and b: "set perm \<subseteq> {0..<length xs}"
    using assms by (auto simp: is_shuffle_def list_all_iff)
  have "card (set perm) = card {0..<length xs}"
    using d l by (simp add: distinct_card)
  with b have "set perm = {0..<length xs}"
    by (simp add: card_subset_eq)
  then have "mset perm = mset [0..<length xs]"
    by (metis d distinct_upt set_eq_iff_mset_eq_distinct set_upt)
  then have "mset (map ((!) xs) perm) = mset (map ((!) xs) [0..<length xs])"
    by (metis mset_map)
  then show ?thesis by (simp add: shuffled_def map_nth)
qed

subsection \<open>Invariants of sessions\<close>

lemma run_snoc: "run ar (es @ [e]) s = handle ar e (run ar es s)"
  by (simp add: run_def)

lemma handle_count:
  assumes "currentIteration s = int (length (iterationHistory s))"
  shows "currentIteration (handle ar e s) = int (length (iterationHistory (handle ar e s)))"
proof (cases e)
  case PreviousIteration
  then show ?thesis
    using assms by (cases "iterationHistory s")
      (simp_all add: revertToPreviousIteration_def Let_def)
qed (use assms in \<open>simp_all add: handleMouseDown_def setClusters_def initializeCentroids_def
       performKMeansIteration_def resetClustering_def Let_def\<close>)

lemma run_count:
  "currentIteration (run ar es initial_state) = int (length (iterationHistory (run ar es initial_state)))"
proof (induction es rule: rev_induct)
  case Nil
  then show ?case by (simp add: run_def initial_state_def)
next
  case (snoc e es)
  then show ?case by (simp add: run_snoc handle_count)
qed

lemma valid_step: "assignmentValid s \<Longrightarrow> assignmentValid (performKMeansIteration ar s)"
  by (auto simp: assignmentValid_def performKMeansIteration_def labelsInRange_newPoints)

lemma valid_mouse: "assignmentValid s \<Longrightarrow> assignmentValid (handleMouseDown x y s)"
  by (auto simp: assignmentValid_def handleMouseDown_def labelsInRange_def list_all_iff
           split: option.splits)

lemma valid_revert: "assignmentValid s \<Longrightarrow> assignmentValid (revertToPreviousIteration s)"
proof -
  assume v: "assignmentValid s"
  show ?thesis
  proof (cases "iterationHistory s = []")
    case True
    with v show ?thesis by (simp add: revertToPreviousIteration_def)
  next
    case False
    then have "iterationHistory s ! (length (iterationHistory s) - 1) = last (iterationHistory s)"
      by (simp add: last_conv_nth)
    moreover have "last (iterationHistory s) \<in> set (iterationHistory s)"
      using False by simp
    ultimately show ?thesis
      using v False
      by (auto simp: assignmentValid_def revertToPreviousIteration_def Let_def list_all_iff
               dest: in_set_butlastD)
  qed
qed

lemma handle_seeded:
  assumes "centroids s \<noteq> [] \<longrightarrow> points s \<noteq> []" "\<forall>h\<in>set (iterationHistory s). fst h \<noteq> []"
  shows "(centroids (handle ar e s) \<noteq> [] \<longrightarrow> points (handle ar e s) \<noteq> []) \<and>
         (\<forall>h\<in>set (iterationHistory (handle ar e s)). fst h \<noteq> [])"
proof (cases e)
  case (MouseDown x y)
  with assms show ?thesis by (simp add: handleMouseDown_def)
next
  case (SetClusters k)
  with assms show ?thesis by (simp add: setClusters_def)
next
  case (Initialize perm rnd)
  then show ?thesis
    by (auto simp: initializeCentroids_def Let_def slice0_def split: if_splits)
next
  case NextIteration
  with assms show ?thesis
    by (auto simp: performKMeansIteration_def newPoints_def)
next
  case PreviousIteration
  show ?thesis
  proof (cases "iterationHistory s = []")
    case True
    with assms PreviousIteration show ?thesis by (simp add: revertToPreviousIteration_def)
  next
    case False
    then have "iterationHistory s ! (length (iterationHistory s) - 1) \<in> set (iterationHistory s)"
      by simp
    with assms(2) False PreviousIteration show ?thesis
      by (auto simp: revertToPreviousIteration_def Let_def dest: in_set_butlastD)
  qed
next
  case Reset
  then show ?thesis by (simp add: resetClustering_def)
qed

lemma run_seeded:
  "(centroids (run ar es initial_state) \<noteq> [] \<longrightarrow> points (run ar es initial_state) \<noteq> []) \<and>
   (\<forall>h\<in>set (iterationHistory (run ar es initial_state)). fst h \<noteq> [])"
proof (induction es rule: rev_induct)
  case Nil
  then show ?case by (simp add: run_def initial_state_def)
next
  case (snoc e es)
  then show ?case unfolding run_snoc by (intro handle_seeded) simp_all
qed

lemma step_enabled_in_run:
  assumes "centroids (run ar es initial_state) \<noteq> []"
  shows "points (run ar es initial_state) \<noteq> [] \<and> 0 \<le> currentIteration (run ar es initial_state)"
  using assms run_seeded [of ar es] run_count [of ar es] by simp

subsection \<open>The example sessions, evaluated\<close>

lemmas model_defs = initial_state_def handleMouseDown_def setClusters_def initializeCentroids_def
  shuffled_def slice0_def generateRandomColors_def black_def performKMeansIteration_def
  newPoints_def newCentroids_def clusterPoints_def labels_def distances_def nearest_def
  indexOf_def calculateDistance_def ideal_def hasConverged_def revertToPreviousIteration_def
  resetClustering_def clickInitialize_def clickNextIteration_def clickPreviousIteration_def
  decimal.simps

lemma one_point_eq:
  "one_point =
     \<lparr>points = [\<lparr>px = 1, py = 1, pcluster = None, pname = ''p1''\<rparr>], clusters = 2,
      centroids = [], clusterColors = [], iterationHistory = [], currentIteration = 0,
      isConverged = False\<rparr>"
  by (simp add: one_point_def model_defs)

lemma ready_one_eq:
  "ready_one =
     \<lparr>points = [\<lparr>px = 1, py = 1, pcluster = None, pname = ''p1''\<rparr>], clusters = 1,
      centroids = [\<lparr>cx = 1, cy = 1\<rparr>], clusterColors = [''rgb(0, 0, 0)''],
      iterationHistory = [], currentIteration = 0, isConverged = False\<rparr>"
  by (simp add: ready_one_def one_point_eq model_defs)

lemma stepped_one_eq:
  "stepped_one =
     \<lparr>points = [\<lparr>px = 1, py = 1, pcluster = Some 0, pname = ''p1''\<rparr>], clusters = 1,
      centroids = [\<lparr>cx = 1, cy = 1\<rparr>], clusterColors = [''rgb(0, 0, 0)''],
      iterationHistory =
        [([\<lparr>px = 1, py = 1, pcluster = None, pname = ''p1''\<rparr>], [\<lparr>cx = 1, cy = 1\<rparr>])],
      currentIteration = 1, isConverged = True\<rparr>"
  by (simp add: stepped_one_def ready_one_eq model_defs)

lemma ready_three_eq:
  "ready_three =
     \<lparr>points = [\<lparr>px = 0, py = 1, pcluster = None, pname = ''p2''\<rparr>,
                \<lparr>px = 2, py = 1, pcluster = None, pname = ''p3''\<rparr>,
                \<lparr>px = 1, py = 1, pcluster = None, pname = ''p1''\<rparr>], clusters = 2,
      centroids = [\<lparr>cx = 0, cy = 1\<rparr>, \<lparr>cx = 2, cy = 1\<rparr>],
      clusterColors = [''rgb(0, 0, 0)'', ''rgb(0, 0, 0)''],
      iterationHistory = [], currentIteration = 0, isConverged = False\<rparr>"
  by (simp add: ready_three_def three_points_def model_defs upt_conv_Cons)

lemma stepped_three_eq:
  "performKMeansIteration ideal ready_three =
     \<lparr>points = [\<lparr>px = 0, py = 1, pcluster = Some 0, pname = ''p2''\<rparr>,
                \<lparr>px = 2, py = 1, pcluster = Some 1, pname = ''p3''\<rparr>,
                \<lparr>px = 1, py = 1, pcluster = Some 0, pname = ''p1''\<rparr>], clusters = 2,
      centroids = [\<lparr>cx = 1 / 2, cy = 1\<rparr>, \<lparr>cx = 2, cy = 1\<rparr>],
      clusterColors = [''rgb(0, 0, 0)'', ''rgb(0, 0, 0)''],
      iterationHistory = [(points ready_three, centroids ready_three)],
      currentIteration = 1, isConverged = False\<rparr>"
  by (simp add: ready_three_eq model_defs upt_conv_Cons)

lemma ready_twins_eq:
  "ready_twins =
     \<lparr>points = [\<lparr>px = 3, py = 4, pcluster = None, pname = ''p2''\<rparr>,
                \<lparr>px = 3, py = 4, pcluster = None, pname = ''p1''\<rparr>], clusters = 2,
      centroids = [\<lparr>cx = 3, cy = 4\<rparr>, \<lparr>cx = 3, cy = 4\<rparr>],
      clusterColors = [''rgb(0, 0, 0)'', ''rgb(0, 0, 0)''],
      iterationHistory = [], currentIteration = 0, isConverged = False\<rparr>"
  by (simp add: ready_twins_def twins_def model_defs upt_conv_Cons)

section \<open>The claims\<close>

subsection \<open>C1: Initialize with too few points\<close>

text \<open>
  C1 (as amended). When there are fewer points than \<^verbatim>\<open>clusters\<close>, the Initialize button is
  disabled and a click on it changes nothing: no centroids and no colours are created, and
  the history, the iteration count and the convergence flag stay as they are. Nothing is
  signalled. This check is the button's; the handler \<^verbatim>\<open>initializeCentroids\<close> has none.
\<close>

theorem initialize_button_disabled:
  "int (length (points s)) < clusters s \<Longrightarrow> clickInitialize perm rnd s = s"
  by (simp add: clickInitialize_def)

text \<open>The session with one point and \<^verbatim>\<open>clusters = 2\<close>.\<close>

theorem initialize_button_disabled_witness:
  "int (length (points one_point)) < clusters one_point \<and>
   clickInitialize [0] black one_point = one_point"
proof -
  have h: "int (length (points one_point)) < clusters one_point"
    by (simp add: one_point_eq)
  from h initialize_button_disabled [OF h, of "[0]" black] show ?thesis by simp
qed

text \<open>
  The claim as worded does not hold of the handler, nor of the button for \<open>k < 1\<close>.
  Called with one point and \<^verbatim>\<open>clusters = 2\<close>, \<^verbatim>\<open>initializeCentroids\<close> creates one centroid
  and two colours. With \<^verbatim>\<open>clusters = 0\<close> the button is enabled, and after one iteration a
  click on it empties the history and resets the iteration count and the convergence flag.
\<close>

theorem initialize_unguarded_counterexample:
  "int (length (points one_point)) < clusters one_point \<and>
   centroids one_point = [] \<and>
   centroids (initializeCentroids [0] black one_point) = [\<lparr>cx = 1, cy = 1\<rparr>] \<and>
   clusterColors one_point = [] \<and>
   clusterColors (initializeCentroids [0] black one_point) = [''rgb(0, 0, 0)'', ''rgb(0, 0, 0)''] \<and>
   clusters stepped_zero < 1 \<and>
   currentIteration stepped_zero = 1 \<and>
   currentIteration (clickInitialize [0] black stepped_zero) = 0 \<and>
   length (iterationHistory stepped_zero) = 1 \<and>
   length (iterationHistory (clickInitialize [0] black stepped_zero)) = 0 \<and>
   isConverged stepped_zero \<and>
   \<not> isConverged (clickInitialize [0] black stepped_zero)"
  by (simp add: one_point_eq stepped_zero_def stepped_one_eq setClusters_def clickInitialize_def
        initializeCentroids_def shuffled_def slice0_def generateRandomColors_def black_def
        upt_conv_Cons)

subsection \<open>C2: Next Iteration when there is nothing to do\<close>

text \<open>
  C2 (as amended). \<^verbatim>\<open>performKMeansIteration\<close> returns at once, leaving every state variable
  as it is, when there are no points or no centroids. It does not look at
  \<^verbatim>\<open>isConverged\<close>: after convergence it is the disabled Next Iteration button that makes a
  click a no-op, as it does when there are no centroids.
\<close>

theorem step_noop_cases:
  "(points s = [] \<or> centroids s = [] \<longrightarrow> performKMeansIteration ar s = s) \<and>
   (isConverged s \<or> centroids s = [] \<longrightarrow> clickNextIteration ar s = s)"
  by (simp add: performKMeansIteration_def clickNextIteration_def)

text \<open>
  The session with one point and no centroids, and the session that has converged after
  one iteration.
\<close>

theorem step_noop_cases_witness:
  "centroids one_point = [] \<and> performKMeansIteration ideal one_point = one_point \<and>
   isConverged stepped_one \<and> clickNextIteration ideal stepped_one = stepped_one"
proof -
  have a: "centroids one_point = []" by (simp add: one_point_eq)
  have b: "isConverged stepped_one" by (simp add: stepped_one_eq)
  from a b step_noop_cases [of one_point ideal] step_noop_cases [of stepped_one ideal]
  show ?thesis by simp
qed

text \<open>
  The claim as worded does not hold of the handler: called in the converged session it
  pushes a second snapshot and counts a second iteration.
\<close>

theorem step_when_converged_counterexample:
  "isConverged stepped_one \<and>
   currentIteration stepped_one = 1 \<and>
   currentIteration (performKMeansIteration ideal stepped_one) = 2 \<and>
   length (iterationHistory stepped_one) = 1 \<and>
   length (iterationHistory (performKMeansIteration ideal stepped_one)) = 2"
  by (simp add: stepped_one_eq performKMeansIteration_def)

subsection \<open>C3: what Initialize resets\<close>

text \<open>
  C3 (as amended). \<^verbatim>\<open>initializeCentroids\<close> sets the iteration count to 0 and the
  convergence flag to false and empties the history. It leaves the cluster labels alone:
  the points after it are the points before it, each with the label it had, in the order
  the sort left them.
\<close>

theorem initialize_resets_session:
  assumes "is_shuffle perm (length (points s))"
  shows "currentIteration (initializeCentroids perm rnd s) = 0 \<and>
         \<not> isConverged (initializeCentroids perm rnd s) \<and>
         iterationHistory (initializeCentroids perm rnd s) = [] \<and>
         mset (points (initializeCentroids perm rnd s)) = mset (points s) \<and>
         mset (map pcluster (points (initializeCentroids perm rnd s))) =
           mset (map pcluster (points s))"
proof -
  have "mset (points (initializeCentroids perm rnd s)) = mset (points s)"
    using mset_shuffled [OF assms] by (simp add: initializeCentroids_def Let_def)
  moreover from this
  have "mset (map pcluster (points (initializeCentroids perm rnd s))) =
          mset (map pcluster (points s))"
    by (metis mset_map)
  ultimately show ?thesis by (simp add: initializeCentroids_def Let_def)
qed

text \<open>The converged session with one point, whose label is 0.\<close>

theorem initialize_resets_session_witness:
  "is_shuffle [0] (length (points stepped_one)) \<and>
   currentIteration (initializeCentroids [0] black stepped_one) = 0 \<and>
   \<not> isConverged (initializeCentroids [0] black stepped_one) \<and>
   iterationHistory (initializeCentroids [0] black stepped_one) = [] \<and>
   mset (map pcluster (points (initializeCentroids [0] black stepped_one))) = {#Some 0#}"
proof -
  have h: "is_shuffle [0] (length (points stepped_one))"
    by (simp add: stepped_one_eq is_shuffle_def)
  have "mset (map pcluster (points stepped_one)) = {#Some 0#}"
    by (simp add: stepped_one_eq)
  with h initialize_resets_session [OF h, of black] show ?thesis by simp
qed

text \<open>
  The claim as worded does not hold: in that session, Initialize with \<^verbatim>\<open>clusters = 1\<close> and
  one point leaves the point labelled 0.
\<close>

theorem initialize_keeps_labels_counterexample:
  "1 \<le> clusters stepped_one \<and>
   clusters stepped_one \<le> int (length (points stepped_one)) \<and>
   is_shuffle [0] (length (points stepped_one)) \<and>
   map pcluster (points (initializeCentroids [0] black stepped_one)) = [Some 0]"
  by (simp add: stepped_one_eq initializeCentroids_def Let_def shuffled_def is_shuffle_def)

subsection \<open>C4: Previous Iteration undoes Next Iteration\<close>

text \<open>
  C4. In a state with points and centroids and an iteration count that is not negative,
  \<^verbatim>\<open>performKMeansIteration\<close> followed by \<^verbatim>\<open>revertToPreviousIteration\<close> gives back the
  points with their labels, the centroids and the iteration count, and the history is what
  it was, so of the same length. By \<open>step_enabled_in_run\<close> every state of a session in
  which the centroids are not empty is such a state.
\<close>

theorem revert_undoes_step:
  assumes "points s \<noteq> []" "centroids s \<noteq> []" "0 \<le> currentIteration s"
  shows "points (revertToPreviousIteration (performKMeansIteration ar s)) = points s \<and>
         centroids (revertToPreviousIteration (performKMeansIteration ar s)) = centroids s \<and>
         currentIteration (revertToPreviousIteration (performKMeansIteration ar s)) =
           currentIteration s \<and>
         iterationHistory (revertToPreviousIteration (performKMeansIteration ar s)) =
           iterationHistory s \<and>
         length (iterationHistory (revertToPreviousIteration (performKMeansIteration ar s))) =
           length (iterationHistory s)"
  using assms by (simp add: performKMeansIteration_def revertToPreviousIteration_def Let_def)

text \<open>The session with three points and two centroids.\<close>

theorem revert_undoes_step_witness:
  "points ready_three \<noteq> [] \<and> centroids ready_three \<noteq> [] \<and> 0 \<le> currentIteration ready_three \<and>
   points (revertToPreviousIteration (performKMeansIteration ideal ready_three)) = points ready_three \<and>
   centroids (revertToPreviousIteration (performKMeansIteration ideal ready_three)) =
     centroids ready_three \<and>
   currentIteration (revertToPreviousIteration (performKMeansIteration ideal ready_three)) = 0 \<and>
   length (iterationHistory (revertToPreviousIteration (performKMeansIteration ideal ready_three))) = 0"
proof -
  have h: "points ready_three \<noteq> []" "centroids ready_three \<noteq> []"
    "0 \<le> currentIteration ready_three"
    by (simp_all add: ready_three_eq)
  have "currentIteration ready_three = 0" "iterationHistory ready_three = []"
    by (simp_all add: ready_three_eq)
  with h revert_undoes_step [OF h] show ?thesis by simp
qed

subsection \<open>C5: the assignment\<close>



subsection \<open>C6: the update of the centroids\<close>

text \<open>
  C6. Let the points labelled \<open>i\<close> by \<^verbatim>\<open>performKMeansIteration\<close> be the list \<open>assigned\<close>,
  in their order in \<^verbatim>\<open>points\<close>. If it is empty, the centroid at index \<open>i\<close> after the
  iteration is the centroid at index \<open>i\<close> before it. Otherwise its x coordinate is the mean
  of the x coordinates of \<open>assigned\<close> as the code computes it: they are added one by one
  to 0 and the sum is divided by their number, each operation being that of the arithmetic
  \<open>ar\<close>; and the same for y. By \<open>mean_ideal\<close> this is the sum divided by the number when
  nothing is rounded.
\<close>

theorem empty_cluster_keeps_centroid:
  assumes "points s \<noteq> []" "centroids s \<noteq> []" "i < length (centroids s)"
  shows "let assigned = filter (\<lambda>p. pcluster p = Some (int i))
                          (points (performKMeansIteration ar s))
         in (assigned = [] \<longrightarrow>
               centroids (performKMeansIteration ar s) ! i = centroids s ! i) \<and>
            (assigned \<noteq> [] \<longrightarrow>
               centroids (performKMeansIteration ar s) ! i =
                 \<lparr>cx = num_div ar (foldl (num_add ar) 0 (map px assigned))
                         (real (length assigned)),
                  cy = num_div ar (foldl (num_add ar) 0 (map py assigned))
                         (real (length assigned))\<rparr>)"
proof -
  let ?ps = "points s" and ?cs = "centroids s"
  let ?L = "labels ar ?ps ?cs"
  let ?cps = "map (\<lambda>k. ?ps ! k) (filter (\<lambda>k. ?L ! k = int i) [0..<length ?ps])"
  have pts: "points (performKMeansIteration ar s) =
      map (\<lambda>k. (?ps ! k)\<lparr>pcluster := Some (?L ! k)\<rparr>) [0..<length ?ps]"
    using assms(1,2) by (simp add: performKMeansIteration_def newPoints_def)
  have cen: "centroids (performKMeansIteration ar s) ! i =
      (if ?cps = [] then ?cs ! i
       else \<lparr>cx = num_div ar (foldl (\<lambda>sum p. num_add ar sum (px p)) 0 ?cps) (real (length ?cps)),
             cy = num_div ar (foldl (\<lambda>sum p. num_add ar sum (py p)) 0 ?cps) (real (length ?cps))\<rparr>)"
    using assms
    by (simp add: performKMeansIteration_def newCentroids_def clusterPoints_def Let_def)
  have asg: "filter (\<lambda>p. pcluster p = Some (int i)) (points (performKMeansIteration ar s)) =
      map (\<lambda>p. p\<lparr>pcluster := Some (int i)\<rparr>) ?cps"
    unfolding pts by (rule filter_relabel)
  show ?thesis
    unfolding Let_def asg cen by (simp add: foldl_map o_def)
qed

text \<open>
  With two points at (3, 4) both centroids are (3, 4), both points get label 0 and the
  centroid at index 1 stays. In the session with three points, cluster 0 holds (0, 1) and
  (1, 1) and its centroid moves to (1/2, 1).
\<close>

theorem empty_cluster_keeps_centroid_witness:
  "points ready_twins \<noteq> [] \<and> centroids ready_twins \<noteq> [] \<and>
   1 < length (centroids ready_twins) \<and>
   filter (\<lambda>p. pcluster p = Some (int 1))
     (points (performKMeansIteration ideal ready_twins)) = [] \<and>
   centroids (performKMeansIteration ideal ready_twins) ! 1 = centroids ready_twins ! 1 \<and>
   points ready_three \<noteq> [] \<and> centroids ready_three \<noteq> [] \<and>
   0 < length (centroids ready_three) \<and>
   map pname (filter (\<lambda>p. pcluster p = Some (int 0))
     (points (performKMeansIteration ideal ready_three))) = [''p2'', ''p1''] \<and>
   centroids (performKMeansIteration ideal ready_three) ! 0 = \<lparr>cx = 1 / 2, cy = 1\<rparr>"
proof -
  have h: "points ready_twins \<noteq> []" "centroids ready_twins \<noteq> []"
    "1 < length (centroids ready_twins)"
    by (simp_all add: ready_twins_eq)
  have e: "filter (\<lambda>p. pcluster p = Some (int 1))
             (points (performKMeansIteration ideal ready_twins)) = []"
    by (simp add: ready_twins_eq model_defs upt_conv_Cons)
  have a: "centroids (performKMeansIteration ideal ready_twins) ! 1 = centroids ready_twins ! 1"
    using empty_cluster_keeps_centroid [OF h, of ideal] e by (simp add: Let_def)
  have k: "points ready_three \<noteq> []" "centroids ready_three \<noteq> []"
    "0 < length (centroids ready_three)"
    by (simp_all add: ready_three_eq)
  have f: "filter (\<lambda>p. pcluster p = Some 0)
             (points (performKMeansIteration ideal ready_three)) =
           [\<lparr>px = 0, py = 1, pcluster = Some 0, pname = ''p2''\<rparr>,
            \<lparr>px = 1, py = 1, pcluster = Some 0, pname = ''p1''\<rparr>]"
    by (simp add: stepped_three_eq)
  have b: "centroids (performKMeansIteration ideal ready_three) ! 0 = \<lparr>cx = 1 / 2, cy = 1\<rparr>"
    using empty_cluster_keeps_centroid [OF k, of ideal] f by (simp add: Let_def ideal_def)
  from h e a k f b show ?thesis by simp
qed

subsection \<open>C7: the initial centroids\<close>

text \<open>
  C7. Let \<open>1 \<le> clusters \<le> length points\<close>, and let the sort leave the points in the order
  \<open>perm\<close>. After \<^verbatim>\<open>initializeCentroids\<close> there are exactly \<open>clusters\<close> centroids; each has
  the coordinates of a point of the state; they are the coordinates of the points at the
  first \<open>clusters\<close> indices of \<open>perm\<close>, which are distinct indices into the points. A
  centroid is a value of its own, made by \<^verbatim>\<open>({ x: p.x, y: p.y })\<close>: whatever the points are
  replaced with afterwards, the centroids are the same.
\<close>

theorem initialize_samples_points:
  assumes "is_shuffle perm (length (points s))" "1 \<le> clusters s"
    "clusters s \<le> int (length (points s))"
  shows "length (centroids (initializeCentroids perm rnd s)) = nat (clusters s) \<and>
         (\<forall>c\<in>set (centroids (initializeCentroids perm rnd s)).
            \<exists>p\<in>set (points (initializeCentroids perm rnd s)). cx c = px p \<and> cy c = py p) \<and>
         set (points (initializeCentroids perm rnd s)) = set (points s) \<and>
         centroids (initializeCentroids perm rnd s) =
           map (\<lambda>i. \<lparr>cx = px (points s ! i), cy = py (points s ! i)\<rparr>)
             (take (nat (clusters s)) perm) \<and>
         distinct (take (nat (clusters s)) perm) \<and>
         (\<forall>i\<in>set (take (nat (clusters s)) perm). i < length (points s)) \<and>
         (\<forall>ps. centroids ((initializeCentroids perm rnd s)\<lparr>points := ps\<rparr>) =
            centroids (initializeCentroids perm rnd s))"
proof -
  let ?t = "initializeCentroids perm rnd s"
  have d: "distinct perm" and l: "length perm = length (points s)"
    and b: "\<forall>i\<in>set perm. i < length (points s)"
    using assms(1) by (auto simp: is_shuffle_def list_all_iff)
  have c: "centroids ?t =
      map (\<lambda>i. \<lparr>cx = px (points s ! i), cy = py (points s ! i)\<rparr>) (take (nat (clusters s)) perm)"
    using assms(2)
    by (simp add: initializeCentroids_def Let_def slice0_def shuffled_def take_map o_def)
  have p: "points ?t = shuffled perm (points s)"
    by (simp add: initializeCentroids_def Let_def)
  have n: "length (centroids ?t) = nat (clusters s)"
    using assms(2,3) l unfolding c by simp
  have m: "\<forall>c\<in>set (centroids ?t). \<exists>p\<in>set (points ?t). cx c = px p \<and> cy c = py p"
  proof
    fix c assume "c \<in> set (centroids ?t)"
    then obtain i where i: "i \<in> set (take (nat (clusters s)) perm)"
      "c = \<lparr>cx = px (points s ! i), cy = py (points s ! i)\<rparr>"
      unfolding c by auto
    from i(1) have "i \<in> set perm" by (rule in_set_takeD)
    then have "points s ! i \<in> set (points ?t)"
      unfolding p shuffled_def by simp
    with i(2) show "\<exists>p\<in>set (points ?t). cx c = px p \<and> cy c = py p"
      by (intro bexI [of _ "points s ! i"]) simp_all
  qed
  have e: "set (points ?t) = set (points s)"
    using mset_shuffled [OF assms(1)] unfolding p by (rule mset_eq_setD)
  have i: "\<forall>i\<in>set (take (nat (clusters s)) perm). i < length (points s)"
    using b by (auto dest: in_set_takeD)
  from n m e c d i show ?thesis by simp
qed

text \<open>Three points, two clusters, and the sort bringing the first point last.\<close>

theorem initialize_samples_points_witness:
  "is_shuffle [1, 2, 0] (length (points three_points)) \<and>
   1 \<le> clusters three_points \<and> clusters three_points \<le> int (length (points three_points)) \<and>
   length (centroids (initializeCentroids [1, 2, 0] black three_points)) = 2 \<and>
   centroids (initializeCentroids [1, 2, 0] black three_points) =
     [\<lparr>cx = 0, cy = 1\<rparr>, \<lparr>cx = 2, cy = 1\<rparr>]"
proof -
  have e: "three_points =
     \<lparr>points = [\<lparr>px = 1, py = 1, pcluster = None, pname = ''p1''\<rparr>,
                \<lparr>px = 0, py = 1, pcluster = None, pname = ''p2''\<rparr>,
                \<lparr>px = 2, py = 1, pcluster = None, pname = ''p3''\<rparr>], clusters = 2,
      centroids = [], clusterColors = [], iterationHistory = [], currentIteration = 0,
      isConverged = False\<rparr>"
    by (simp add: three_points_def initial_state_def handleMouseDown_def decimal.simps)
  have h: "is_shuffle [1, 2, 0] (length (points three_points))" "1 \<le> clusters three_points"
    "clusters three_points \<le> int (length (points three_points))"
    by (simp_all add: e is_shuffle_def)
  have "take (nat (clusters three_points)) [1, 2, 0::nat] = [1, 2]"
    by (simp add: e take_Cons')
  with initialize_samples_points [OF h, of black] h show ?thesis
    by (simp add: e)
qed

subsection \<open>C8: convergence\<close>

text \<open>
  C8. Let \<open>t\<close> be the state after \<^verbatim>\<open>performKMeansIteration\<close> in a state \<open>s\<close> with points
  and centroids. The convergence flag of \<open>t\<close> is true if and only if it was true in \<open>s\<close> or,
  at every index, the difference of the new and the old centroid, as the arithmetic \<open>ar\<close>
  subtracts them, is in absolute value below the double \<^verbatim>\<open>0.001\<close> in x and in y; so from a
  state that has not converged, the flag becomes true exactly when this test holds.
  Whatever the test says, the iteration is in \<open>t\<close>: the iteration count is one more, the
  state before is the last snapshot of the history, every point is the point it was with
  the index of its first nearest centroid as label, and every centroid is the mean of the
  points that now have its index as label, or the centroid it was when there are none.
\<close>

theorem step_convergence_flag:
  assumes "points s \<noteq> []" "centroids s \<noteq> []"
  shows "let t = performKMeansIteration ar s;
             D = (\<lambda>p c. math_sqrt ar
                     (num_add ar (math_pow ar (num_sub ar (px p) (cx c)) 2)
                                 (math_pow ar (num_sub ar (py p) (cy c)) 2)))
         in (isConverged t \<longleftrightarrow>
               isConverged s \<or>
               (\<forall>i<length (centroids s).
                  \<bar>num_sub ar (cx (centroids t ! i)) (cx (centroids s ! i))\<bar>
                    < 1152921504606847 / 2 ^ 60 \<and>
                  \<bar>num_sub ar (cy (centroids t ! i)) (cy (centroids s ! i))\<bar>
                    < 1152921504606847 / 2 ^ 60)) \<and>
            currentIteration t = currentIteration s + 1 \<and>
            iterationHistory t = iterationHistory s @ [(points s, centroids s)] \<and>
            length (points t) = length (points s) \<and>
            (\<forall>i<length (points s).
               \<exists>j<length (centroids s).
                 points t ! i = (points s ! i)\<lparr>pcluster := Some (int j)\<rparr> \<and>
                 (\<forall>j'<length (centroids s).
                    D (points s ! i) (centroids s ! j) \<le> D (points s ! i) (centroids s ! j')) \<and>
                 (\<forall>j'<j. D (points s ! i) (centroids s ! j) < D (points s ! i) (centroids s ! j'))) \<and>
            length (centroids t) = length (centroids s) \<and>
            (\<forall>i<length (centroids s).
               centroids t ! i =
                 (let assigned = filter (\<lambda>p. pcluster p = Some (int i)) (points t)
                  in if assigned = [] then centroids s ! i
                     else \<lparr>cx = num_div ar (foldl (num_add ar) 0 (map px assigned))
                                  (real (length assigned)),
                           cy = num_div ar (foldl (num_add ar) 0 (map py assigned))
                                  (real (length assigned))\<rparr>))"
proof -
  let ?t = "performKMeansIteration ar s"
  let ?ps = "points s" and ?cs = "centroids s"
  let ?L = "labels ar ?ps ?cs"
  let ?D = "\<lambda>p c. math_sqrt ar
                    (num_add ar (math_pow ar (num_sub ar (px p) (cx c)) 2)
                                (math_pow ar (num_sub ar (py p) (cy c)) 2))"
  have lc: "length (centroids ?t) = length ?cs"
    using assms by (simp add: performKMeansIteration_def newCentroids_def)
  have flag: "isConverged ?t \<longleftrightarrow>
      isConverged s \<or>
      (\<forall>i<length ?cs.
         \<bar>num_sub ar (cx (centroids ?t ! i)) (cx (?cs ! i))\<bar> < 1152921504606847 / 2 ^ 60 \<and>
         \<bar>num_sub ar (cy (centroids ?t ! i)) (cy (?cs ! i))\<bar> < 1152921504606847 / 2 ^ 60)"
    using assms
    by (auto simp: performKMeansIteration_def hasConverged_def list_all_iff length_newCentroids)
  have count: "currentIteration ?t = currentIteration s + 1"
    and hist: "iterationHistory ?t = iterationHistory s @ [(?ps, ?cs)]"
    using assms by (simp_all add: performKMeansIteration_def)
  have lab: "?L = map (\<lambda>p. nearest (map (?D p) ?cs)) ?ps"
    by (simp add: labels_def distances_def calculateDistance_def)
  have pts: "points ?t = map (\<lambda>k. (?ps ! k)\<lparr>pcluster := Some (?L ! k)\<rparr>) [0..<length ?ps]"
    using assms by (simp add: performKMeansIteration_def newPoints_def)
  have lp: "length (points ?t) = length ?ps"
    unfolding pts by simp
  have pt: "\<exists>j<length ?cs.
      points ?t ! i = (?ps ! i)\<lparr>pcluster := Some (int j)\<rparr> \<and>
      (\<forall>j'<length ?cs. ?D (?ps ! i) (?cs ! j) \<le> ?D (?ps ! i) (?cs ! j')) \<and>
      (\<forall>j'<j. ?D (?ps ! i) (?cs ! j) < ?D (?ps ! i) (?cs ! j'))"
    if i: "i < length ?ps" for i
  proof -
    let ?d = "map (?D (?ps ! i)) ?cs"
    have "?d \<noteq> []" using assms(2) by simp
    from first_minimum [OF this] obtain m j where
      mj: "math_min ?d = Some m" "indexOf ?d m = int j" and
      jd: "j < length ?d" "\<forall>j'<length ?d. ?d ! j \<le> ?d ! j'" "\<forall>j'<j. ?d ! j < ?d ! j'"
      by blast
    have nj: "nearest ?d = int j"
      using mj by (simp add: nearest_def)
    note j = jd(1) nj jd(2) jd(3)
    have "points ?t ! i = (?ps ! i)\<lparr>pcluster := Some (int j)\<rparr>"
      using i j(2) unfolding pts lab by simp
    moreover have "\<forall>j'<length ?cs. ?D (?ps ! i) (?cs ! j) \<le> ?D (?ps ! i) (?cs ! j')"
      using j(1,3) by simp
    moreover have "\<forall>j'<j. ?D (?ps ! i) (?cs ! j) < ?D (?ps ! i) (?cs ! j')"
      using j(1,4) by simp
    ultimately show ?thesis using j(1) by (intro exI [of _ j]) simp
  qed
  have ct: "centroids ?t ! i =
      (let assigned = filter (\<lambda>p. pcluster p = Some (int i)) (points ?t)
       in if assigned = [] then ?cs ! i
          else \<lparr>cx = num_div ar (foldl (num_add ar) 0 (map px assigned)) (real (length assigned)),
                cy = num_div ar (foldl (num_add ar) 0 (map py assigned)) (real (length assigned))\<rparr>)"
    if i: "i < length ?cs" for i
  proof -
    let ?cps = "map (\<lambda>k. ?ps ! k) (filter (\<lambda>k. ?L ! k = int i) [0..<length ?ps])"
    have cen: "centroids ?t ! i =
        (if ?cps = [] then ?cs ! i
         else \<lparr>cx = num_div ar (foldl (\<lambda>sum p. num_add ar sum (px p)) 0 ?cps)
                      (real (length ?cps)),
               cy = num_div ar (foldl (\<lambda>sum p. num_add ar sum (py p)) 0 ?cps)
                      (real (length ?cps))\<rparr>)"
      using assms i
      by (simp add: performKMeansIteration_def newCentroids_def clusterPoints_def Let_def)
    have asg: "filter (\<lambda>p. pcluster p = Some (int i)) (points ?t) =
        map (\<lambda>p. p\<lparr>pcluster := Some (int i)\<rparr>) ?cps"
      unfolding pts by (rule filter_relabel)
    show ?thesis
      unfolding Let_def asg cen by (simp add: foldl_map o_def)
  qed
  from flag count hist lp pt lc ct show ?thesis
    unfolding Let_def by blast
qed

text \<open>
  The session with one point converges in its first iteration; the session with three
  points does not, its first centroid moving from (0, 1) to (1/2, 1), and its points are
  labelled 0, 1 and 0 all the same.
\<close>

theorem step_convergence_flag_witness:
  "points ready_one \<noteq> [] \<and> centroids ready_one \<noteq> [] \<and> \<not> isConverged ready_one \<and>
   isConverged (performKMeansIteration ideal ready_one) \<and>
   currentIteration (performKMeansIteration ideal ready_one) = 1 \<and>
   points ready_three \<noteq> [] \<and> centroids ready_three \<noteq> [] \<and> \<not> isConverged ready_three \<and>
   \<not> isConverged (performKMeansIteration ideal ready_three) \<and>
   currentIteration (performKMeansIteration ideal ready_three) = 1 \<and>
   map pcluster (points (performKMeansIteration ideal ready_three)) = [Some 0, Some 1, Some 0]"
proof -
  have h1: "points ready_one \<noteq> []" "centroids ready_one \<noteq> []"
    and n1: "\<not> isConverged ready_one" "currentIteration ready_one = 0"
    by (simp_all add: ready_one_eq)
  have h3: "points ready_three \<noteq> []" "centroids ready_three \<noteq> []"
    and n3: "\<not> isConverged ready_three" "currentIteration ready_three = 0"
    by (simp_all add: ready_three_eq)
  have c1: "centroids (performKMeansIteration ideal ready_one) = [\<lparr>cx = 1, cy = 1\<rparr>]"
    by (simp add: ready_one_eq model_defs)
  have c3: "centroids (performKMeansIteration ideal ready_three) =
              [\<lparr>cx = 1 / 2, cy = 1\<rparr>, \<lparr>cx = 2, cy = 1\<rparr>]"
    by (simp add: stepped_three_eq)
  have t1: "\<forall>i<length (centroids ready_one).
     \<bar>num_sub ideal (cx (centroids (performKMeansIteration ideal ready_one) ! i))
        (cx (centroids ready_one ! i))\<bar> < 1152921504606847 / 2 ^ 60 \<and>
     \<bar>num_sub ideal (cy (centroids (performKMeansIteration ideal ready_one) ! i))
        (cy (centroids ready_one ! i))\<bar> < 1152921504606847 / 2 ^ 60"
    using c1 by (simp add: ready_one_eq ideal_def)
  have t3: "\<not> (\<forall>i<length (centroids ready_three).
     \<bar>num_sub ideal (cx (centroids (performKMeansIteration ideal ready_three) ! i))
        (cx (centroids ready_three ! i))\<bar> < 1152921504606847 / 2 ^ 60 \<and>
     \<bar>num_sub ideal (cy (centroids (performKMeansIteration ideal ready_three) ! i))
        (cy (centroids ready_three ! i))\<bar> < 1152921504606847 / 2 ^ 60)"
    using c3 by (auto simp: ready_three_eq ideal_def intro!: exI [of _ 0])
  have a: "isConverged (performKMeansIteration ideal ready_one) \<and>
           currentIteration (performKMeansIteration ideal ready_one) = 1"
    using step_convergence_flag [OF h1, of ideal, unfolded Let_def] t1 n1 by force
  have b: "\<not> isConverged (performKMeansIteration ideal ready_three) \<and>
           currentIteration (performKMeansIteration ideal ready_three) = 1"
    using step_convergence_flag [OF h3, of ideal, unfolded Let_def] t3 n3 by force
  have l: "map pcluster (points (performKMeansIteration ideal ready_three)) =
             [Some 0, Some 1, Some 0]"
    by (simp add: stepped_three_eq)
  from a b l h1 h3 n1 n3 show ?thesis by simp
qed

subsection \<open>C9: labels are indices of centroids\<close>

text \<open>
  C9. After \<^verbatim>\<open>performKMeansIteration\<close> in a state with centroids, every point has a label
  \<open>l\<close> with \<open>0 \<le> l < length centroids\<close>. The iteration keeps the number of centroids. If
  every label that is set, in the current points and in every snapshot, is in range for
  its centroids, the same is true after an iteration, after a revert, after a new point and
  after a change of the number input.
\<close>

theorem step_labels_in_range:
  "(centroids s \<noteq> [] \<longrightarrow>
      (\<forall>p\<in>set (points (performKMeansIteration ar s)).
         \<exists>l. pcluster p = Some l \<and> 0 \<le> l \<and>
             l < int (length (centroids (performKMeansIteration ar s))))) \<and>
   length (centroids (performKMeansIteration ar s)) = length (centroids s) \<and>
   (assignmentValid s \<longrightarrow>
      assignmentValid (performKMeansIteration ar s) \<and>
      assignmentValid (revertToPreviousIteration s) \<and>
      assignmentValid (handleMouseDown x y s) \<and>
      assignmentValid (setClusters k s))"
proof -
  have a: "\<exists>l. pcluster p = Some l \<and> 0 \<le> l \<and>
             l < int (length (centroids (performKMeansIteration ar s)))"
    if c: "centroids s \<noteq> []" and p: "p \<in> set (points (performKMeansIteration ar s))" for p
  proof (cases "points s = []")
    case True
    with p show ?thesis by (simp add: performKMeansIteration_def)
  next
    case False
    with c p have "p \<in> set (newPoints ar (points s) (centroids s))"
      by (simp add: performKMeansIteration_def)
    then obtain i where i: "i < length (points s)" "p = newPoints ar (points s) (centroids s) ! i"
      by (auto simp: in_set_conv_nth length_newPoints)
    with label_in_range [OF c i(1)] c False show ?thesis
      by (simp add: nth_newPoints performKMeansIteration_def length_newCentroids)
  qed
  have b: "length (centroids (performKMeansIteration ar s)) = length (centroids s)"
    by (simp add: performKMeansIteration_def length_newCentroids)
  have "assignmentValid (setClusters k s)" if "assignmentValid s"
    using that by (simp add: assignmentValid_def setClusters_def)
  with a b valid_step valid_revert valid_mouse show ?thesis by blast
qed

text \<open>The session with three points and two centroids.\<close>

theorem step_labels_in_range_witness:
  "centroids ready_three \<noteq> [] \<and> assignmentValid ready_three \<and>
   assignmentValid (performKMeansIteration ideal ready_three) \<and>
   length (centroids (performKMeansIteration ideal ready_three)) = 2"
proof -
  have c: "centroids ready_three \<noteq> []" "length (centroids ready_three) = 2"
    by (simp_all add: ready_three_eq)
  have v: "assignmentValid ready_three"
    by (simp add: ready_three_eq assignmentValid_def labelsInRange_def)
  from step_labels_in_range [of ready_three] c v show ?thesis by simp
qed

subsection \<open>C10: the iteration count is the length of the history\<close>

text \<open>
  C10. After any sequence of events from the initial state, the iteration count is the
  length of the history. So the history is non-empty, which is when the Previous Iteration
  button is enabled, exactly when the count is positive; and then \<^verbatim>\<open>Math.max(0, prev - 1)\<close>
  is \<^verbatim>\<open>prev - 1\<close>.
\<close>

theorem iteration_counts_history:
  "currentIteration (run ar es initial_state) =
     int (length (iterationHistory (run ar es initial_state))) \<and>
   (length (iterationHistory (run ar es initial_state)) > 0 \<longleftrightarrow>
      currentIteration (run ar es initial_state) > 0) \<and>
   (length (iterationHistory (run ar es initial_state)) > 0 \<longrightarrow>
      max 0 (currentIteration (run ar es initial_state) - 1) =
        currentIteration (run ar es initial_state) - 1)"
  using run_count [of ar es] by simp

text \<open>A click at (1, 1), one cluster, Initialize, Next Iteration.\<close>

theorem iteration_counts_history_witness:
  "length (iterationHistory
     (run ideal [MouseDown 1 1, SetClusters 1, Initialize [0] black, NextIteration] initial_state)) > 0 \<and>
   currentIteration
     (run ideal [MouseDown 1 1, SetClusters 1, Initialize [0] black, NextIteration] initial_state) = 1 \<and>
   max 0 (currentIteration
     (run ideal [MouseDown 1 1, SetClusters 1, Initialize [0] black, NextIteration] initial_state) - 1) = 0"
proof -
  have r: "run ideal [MouseDown 1 1, SetClusters 1, Initialize [0] black, NextIteration] initial_state =
             stepped_one"
    by (simp add: run_def stepped_one_def ready_one_def one_point_def)
  have "length (iterationHistory stepped_one) = 1"
    by (simp add: stepped_one_eq)
  with iteration_counts_history
    [of ideal "[MouseDown 1 1, SetClusters 1, Initialize [0] black, NextIteration]"]
  show ?thesis unfolding r by simp
qed

end
